theory Spec2Isabelle
  imports Complex_Main "HOL-Library.AList"
begin

section \<open>Hotel reservation system: the booking engine\<close>

text \<open>
  A shallow embedding of \<^verbatim>\<open>models.py\<close> and \<^verbatim>\<open>hotel_service.py\<close>.

  \<^item> A Python \<^verbatim>\<open>date\<close> is its proleptic Gregorian ordinal (\<^verbatim>\<open>date.toordinal()\<close>):
    comparison of dates is comparison of ordinals and \<^verbatim>\<open>(d2 - d1).days\<close> is their difference.
  \<^item> A Python \<^verbatim>\<open>float\<close> price is a \<open>real\<close>: products and sums are exact here, where
    binary64 rounds. The figures of the scenarios (2 nights at 100.0) are exact in both.
  \<^item> \<^verbatim>\<open>Room\<close> objects are shared between \<^verbatim>\<open>hotel.rooms\<close> and the bookings that refer to
    them, and are mutated through either path, so rooms live in a store (\<open>heap\<close>) and are
    named by references; \<open>next_ref\<close> is the first reference not yet allocated.
  \<^item> A Python \<^verbatim>\<open>dict\<close> is an association list in insertion order: assigning to a present
    key keeps its position, a new key goes to the end, \<^verbatim>\<open>del\<close> removes the entry.
  \<^item> An exception is a value \<open>Inl e\<close>; the message text is dropped. Every operation of the
    engine returns its result together with the hotel as it is when the call ends,
    whether it returned or raised.
  \<^item> \<^verbatim>\<open>str(uuid.uuid4())\<close> is a parameter of the operation that draws it.
\<close>

subsection \<open>exceptions.py\<close>

datatype error = EntityNotFoundError | BookingConflictError | InvalidOperationError

subsection \<open>models.py\<close>

type_synonym date = int
type_synonym ref = nat

definition BOOKED :: string where "BOOKED = ''booked''"
definition CHECKED_IN :: string where "CHECKED_IN = ''checked_in''"
definition CHECKED_OUT :: string where "CHECKED_OUT = ''checked_out''"
definition CANCELLED :: string where "CANCELLED = ''cancelled''"

definition is_valid :: "string \<Rightarrow> bool" where
  "is_valid s = (s = BOOKED \<or> s = CHECKED_IN \<or> s = CHECKED_OUT \<or> s = CANCELLED)"

record room =
  number :: int
  room_type :: string
  price_per_night :: real
  is_occupied :: bool

record guest =
  guest_id :: string
  guest_name :: string
  contact :: string

record booking =
  booking_id :: string
  guest :: guest
  room :: ref
  b_check_in :: date
  b_check_out :: date
  status :: string

text \<open>\<^verbatim>\<open>Room.__init__\<close>: the three validations, in the order of the source.\<close>

definition Room_init :: "int \<Rightarrow> string \<Rightarrow> real \<Rightarrow> bool \<Rightarrow> error + room" where
  "Room_init n t p occ =
     (if n \<le> 0 then Inl InvalidOperationError
      else if p \<le> 0 then Inl InvalidOperationError
      else if t = [] then Inl InvalidOperationError
      else Inr \<lparr>number = n, room_type = t, price_per_night = p, is_occupied = occ\<rparr>)"

text \<open>\<^verbatim>\<open>Guest.__post_init__\<close>.\<close>

definition Guest_init :: "string \<Rightarrow> string \<Rightarrow> string \<Rightarrow> error + guest" where
  "Guest_init gid nm c =
     (if gid = [] then Inl InvalidOperationError
      else if nm = [] then Inl InvalidOperationError
      else if c = [] then Inl InvalidOperationError
      else Inr \<lparr>guest_id = gid, guest_name = nm, contact = c\<rparr>)"

text \<open>\<^verbatim>\<open>Booking.__post_init__\<close>.\<close>

definition Booking_init ::
  "string \<Rightarrow> guest \<Rightarrow> ref \<Rightarrow> date \<Rightarrow> date \<Rightarrow> string \<Rightarrow> error + booking" where
  "Booking_init bid g r ci co st =
     (if bid = [] then Inl InvalidOperationError
      else if co \<le> ci then Inl InvalidOperationError
      else if \<not> is_valid st then Inl InvalidOperationError
      else Inr \<lparr>booking_id = bid, guest = g, room = r, b_check_in = ci, b_check_out = co,
                status = st\<rparr>)"

definition nights_count :: "booking \<Rightarrow> int" where
  "nights_count b = b_check_out b - b_check_in b"

subsection \<open>hotel_service.py: the Hotel aggregate\<close>

record hotel =
  hotel_name :: string
  rooms :: "(int \<times> ref) list"
  guests :: "(string \<times> guest) list"
  bookings :: "(string \<times> booking) list"
  heap :: "ref \<Rightarrow> room"
  next_ref :: ref

text \<open>The room object a booking refers to.\<close>

definition room_of :: "hotel \<Rightarrow> booking \<Rightarrow> room" where
  "room_of h b = heap h (room b)"

text \<open>\<^verbatim>\<open>Booking.calculate_total_price\<close> reads the price through the reference.\<close>

definition calculate_total_price :: "hotel \<Rightarrow> booking \<Rightarrow> real" where
  "calculate_total_price h b = of_int (nights_count b) * price_per_night (room_of h b)"

definition blank_room :: room where
  "blank_room = \<lparr>number = 0, room_type = [], price_per_night = 0, is_occupied = False\<rparr>"

text \<open>\<^verbatim>\<open>Hotel.__init__\<close>; no room object exists yet, the store is blank.\<close>

definition Hotel_init :: "string \<Rightarrow> error + hotel" where
  "Hotel_init nm =
     (if nm = [] then Inl InvalidOperationError
      else Inr \<lparr>hotel_name = nm, rooms = [], guests = [], bookings = [],
                heap = (\<lambda>_. blank_room), next_ref = 0\<rparr>)"

text \<open>
  \<^verbatim>\<open>Hotel.add_room\<close>, to which \<^verbatim>\<open>HotelService.add_room\<close> delegates. The new \<^verbatim>\<open>Room\<close> object
  gets the next reference of the store.
\<close>

definition add_room :: "int \<Rightarrow> string \<Rightarrow> real \<Rightarrow> hotel \<Rightarrow> (error + ref) \<times> hotel" where
  "add_room n t p h =
     (if map_of (rooms h) n \<noteq> None then (Inl InvalidOperationError, h)
      else case Room_init n t p False of
             Inl e \<Rightarrow> (Inl e, h)
           | Inr r \<Rightarrow>
               (Inr (next_ref h),
                h\<lparr>rooms := AList.update n (next_ref h) (rooms h),
                  heap := (heap h)(next_ref h := r),
                  next_ref := Suc (next_ref h)\<rparr>))"

definition remove_room :: "int \<Rightarrow> hotel \<Rightarrow> (error + unit) \<times> hotel" where
  "remove_room n h =
     (case map_of (rooms h) n of
        None \<Rightarrow> (Inl EntityNotFoundError, h)
      | Some r \<Rightarrow>
          if is_occupied (heap h r) then (Inl InvalidOperationError, h)
          else (Inr (), h\<lparr>rooms := AList.delete n (rooms h)\<rparr>))"

definition get_room :: "int \<Rightarrow> hotel \<Rightarrow> error + ref" where
  "get_room n h =
     (case map_of (rooms h) n of None \<Rightarrow> Inl EntityNotFoundError | Some r \<Rightarrow> Inr r)"

subsection \<open>hotel_service.py: HotelService\<close>

definition register_guest ::
  "string \<Rightarrow> string \<Rightarrow> string \<Rightarrow> hotel \<Rightarrow> (error + guest) \<times> hotel" where
  "register_guest new_id nm c h =
     (case Guest_init new_id nm c of
        Inl e \<Rightarrow> (Inl e, h)
      | Inr g \<Rightarrow> (Inr g, h\<lparr>guests := AList.update new_id g (guests h)\<rparr>))"

definition get_guest :: "string \<Rightarrow> hotel \<Rightarrow> error + guest" where
  "get_guest gid h =
     (case map_of (guests h) gid of None \<Rightarrow> Inl EntityNotFoundError | Some g \<Rightarrow> Inr g)"

text \<open>
  \<^verbatim>\<open>_room_is_available\<close>: the loop over \<^verbatim>\<open>bookings.values()\<close>, with its two
  \<^verbatim>\<open>continue\<close>s and its early \<^verbatim>\<open>return False\<close>.
\<close>

fun room_is_available_loop :: "hotel \<Rightarrow> booking list \<Rightarrow> ref \<Rightarrow> date \<Rightarrow> date \<Rightarrow> bool" where
  "room_is_available_loop h [] r ci co = True"
| "room_is_available_loop h (b # bs) r ci co =
     (if number (room_of h b) \<noteq> number (heap h r) then room_is_available_loop h bs r ci co
      else if status b = CANCELLED \<or> status b = CHECKED_OUT
        then room_is_available_loop h bs r ci co
      else if ci < b_check_out b \<and> b_check_in b < co then False
      else room_is_available_loop h bs r ci co)"

definition room_is_available :: "hotel \<Rightarrow> ref \<Rightarrow> date \<Rightarrow> date \<Rightarrow> bool" where
  "room_is_available h r ci co = room_is_available_loop h (map snd (bookings h)) r ci co"

definition create_booking ::
  "string \<Rightarrow> string \<Rightarrow> int \<Rightarrow> date \<Rightarrow> date \<Rightarrow> hotel \<Rightarrow> (error + booking) \<times> hotel" where
  "create_booking new_id gid n ci co h =
     (case get_guest gid h of
        Inl e \<Rightarrow> (Inl e, h)
      | Inr g \<Rightarrow>
     (case get_room n h of
        Inl e \<Rightarrow> (Inl e, h)
      | Inr r \<Rightarrow>
          if \<not> room_is_available h r ci co then (Inl BookingConflictError, h)
          else case Booking_init new_id g r ci co BOOKED of
                 Inl e \<Rightarrow> (Inl e, h)
               | Inr b \<Rightarrow> (Inr b, h\<lparr>bookings := AList.update new_id b (bookings h)\<rparr>)))"

definition get_booking :: "string \<Rightarrow> hotel \<Rightarrow> error + booking" where
  "get_booking bid h =
     (case map_of (bookings h) bid of None \<Rightarrow> Inl EntityNotFoundError | Some b \<Rightarrow> Inr b)"

definition cancel_booking :: "string \<Rightarrow> hotel \<Rightarrow> (error + unit) \<times> hotel" where
  "cancel_booking bid h =
     (case get_booking bid h of
        Inl e \<Rightarrow> (Inl e, h)
      | Inr b \<Rightarrow>
          if status b = CANCELLED then (Inr (), h)
          else if status b = CHECKED_OUT then (Inl InvalidOperationError, h)
          else (Inr (),
                h\<lparr>bookings := AList.update bid (b\<lparr>status := CANCELLED\<rparr>) (bookings h)\<rparr>))"

definition check_in :: "string \<Rightarrow> date \<Rightarrow> hotel \<Rightarrow> (error + unit) \<times> hotel" where
  "check_in bid current_date h =
     (case get_booking bid h of
        Inl e \<Rightarrow> (Inl e, h)
      | Inr b \<Rightarrow>
          if status b \<noteq> BOOKED then (Inl InvalidOperationError, h)
          else if current_date \<noteq> b_check_in b then (Inl InvalidOperationError, h)
          else if is_occupied (room_of h b) then (Inl BookingConflictError, h)
          else (Inr (),
                h\<lparr>bookings := AList.update bid (b\<lparr>status := CHECKED_IN\<rparr>) (bookings h),
                  heap := (heap h)(room b := (heap h (room b))\<lparr>is_occupied := True\<rparr>)\<rparr>))"

definition check_out :: "string \<Rightarrow> date \<Rightarrow> hotel \<Rightarrow> (error + real) \<times> hotel" where
  "check_out bid current_date h =
     (case get_booking bid h of
        Inl e \<Rightarrow> (Inl e, h)
      | Inr b \<Rightarrow>
          if status b \<noteq> CHECKED_IN then (Inl InvalidOperationError, h)
          else if current_date \<noteq> b_check_out b then (Inl InvalidOperationError, h)
          else
            (let b' = b\<lparr>status := CHECKED_OUT\<rparr>;
                 h' = h\<lparr>bookings := AList.update bid b' (bookings h),
                        heap := (heap h)(room b := (heap h (room b))\<lparr>is_occupied := False\<rparr>)\<rparr>
             in (Inr (calculate_total_price h' b'), h')))"


subsection \<open>The operations as data, and runs of the engine\<close>

text \<open>
  One constructor for each operation of the engine that changes the hotel, with its
  arguments; \<open>exec\<close> gives the hotel after the call (unchanged or not, returned or raised),
  and \<open>run\<close> a whole session.
\<close>

datatype op =
    AddRoom int string real
  | RemoveRoom int
  | RegisterGuest string string string
  | CreateBooking string string int date date
  | CancelBooking string
  | CheckIn string date
  | CheckOut string date

fun exec :: "op \<Rightarrow> hotel \<Rightarrow> hotel" where
  "exec (AddRoom n t p) h = snd (add_room n t p h)"
| "exec (RemoveRoom n) h = snd (remove_room n h)"
| "exec (RegisterGuest new_id nm c) h = snd (register_guest new_id nm c h)"
| "exec (CreateBooking new_id gid n ci co) h = snd (create_booking new_id gid n ci co h)"
| "exec (CancelBooking bid) h = snd (cancel_booking bid h)"
| "exec (CheckIn bid d) h = snd (check_in bid d h)"
| "exec (CheckOut bid d) h = snd (check_out bid d h)"

fun run :: "op list \<Rightarrow> hotel \<Rightarrow> hotel" where
  "run [] h = h"
| "run (x # xs) h = run xs (exec x h)"


subsection \<open>Dates and the hotels of the scenarios\<close>

text \<open>
  The ordinal of a calendar date, as \<^verbatim>\<open>date(y, m, d).toordinal()\<close> of Python's
  \<^verbatim>\<open>datetime\<close> computes it (day 1 is 0001-01-01), for a valid date.
\<close>

definition is_leap :: "int \<Rightarrow> bool" where
  "is_leap y = (y mod 4 = 0 \<and> (y mod 100 \<noteq> 0 \<or> y mod 400 = 0))"

definition days_before_year :: "int \<Rightarrow> int" where
  "days_before_year y = (y - 1) * 365 + (y - 1) div 4 - (y - 1) div 100 + (y - 1) div 400"

definition days_before_month :: "int \<Rightarrow> nat \<Rightarrow> int" where
  "days_before_month y m =
     [0, 31, 59, 90, 120, 151, 181, 212, 243, 273, 304, 334] ! (m - 1)
       + (if 2 < m \<and> is_leap y then 1 else 0)"

definition date_ordinal :: "int \<Rightarrow> nat \<Rightarrow> int \<Rightarrow> date" where
  "date_ordinal y m d = days_before_year y + days_before_month y m + d"

definition jan_1 :: date where "jan_1 = date_ordinal 2024 1 1"
definition jan_2 :: date where "jan_2 = date_ordinal 2024 1 2"
definition jan_3 :: date where "jan_3 = date_ordinal 2024 1 3"
definition jan_4 :: date where "jan_4 = date_ordinal 2024 1 4"
definition jan_5 :: date where "jan_5 = date_ordinal 2024 1 5"

text \<open>
  Scenario 1 of the specification, step by step: room 101 (single, 100.0), guest John,
  a booking from 2024-01-01 to 2024-01-03, check-in, check-out.
\<close>

definition hotel_0 :: hotel where
  "hotel_0 = \<lparr>hotel_name = ''Luxury Hotel'', rooms = [], guests = [], bookings = [],
              heap = (\<lambda>_. blank_room), next_ref = 0\<rparr>"

definition hotel_ready :: hotel where
  "hotel_ready = run [AddRoom 101 ''single'' 100, RegisterGuest ''g1'' ''John'' ''john@example.com'']
                   hotel_0"

definition hotel_booked :: hotel where
  "hotel_booked = exec (CreateBooking ''b1'' ''g1'' 101 jan_1 jan_3) hotel_ready"

definition hotel_checked_in :: hotel where
  "hotel_checked_in = exec (CheckIn ''b1'' jan_1) hotel_booked"

definition hotel_checked_out :: hotel where
  "hotel_checked_out = exec (CheckOut ''b1'' jan_3) hotel_checked_in"

abbreviation john :: guest where
  "john \<equiv> \<lparr>guest_id = ''g1'', guest_name = ''John'', contact = ''john@example.com''\<rparr>"

abbreviation room_101 :: "bool \<Rightarrow> room" where
  "room_101 occ \<equiv>
     \<lparr>number = 101, room_type = ''single'', price_per_night = 100, is_occupied = occ\<rparr>"

abbreviation booking_1 :: "string \<Rightarrow> booking" where
  "booking_1 st \<equiv> \<lparr>booking_id = ''b1'', guest = john, room = 0, b_check_in = jan_1,
                     b_check_out = jan_3, status = st\<rparr>"

abbreviation booking_2 :: "string \<Rightarrow> booking" where
  "booking_2 st \<equiv> \<lparr>booking_id = ''b2'', guest = john, room = 0, b_check_in = jan_3,
                     b_check_out = jan_5, status = st\<rparr>"

text \<open>
  Further hotels: a second booking (2024-01-03 to 2024-01-05, still booked) while the
  first guest is in the room, and the same after the first guest has checked out
  (Scenario 4); the first booking cancelled while its guest is checked in.
\<close>

definition hotel_waiting :: hotel where
  "hotel_waiting = exec (CreateBooking ''b2'' ''g1'' 101 jan_3 jan_5) hotel_checked_in"


definition hotel_cancelled_in :: hotel where
  "hotel_cancelled_in = exec (CancelBooking ''b1'') hotel_checked_in"


subsection \<open>The specification's notions\<close>

text \<open>
  The conflict of a candidate interval \<open>[ci, co)\<close> on the room \<open>r\<close> with an existing booking,
  in the words of the specification: same room number, status neither cancelled nor
  checked out, and \<open>ci < b.check_out\<close> and \<open>b.check_in < co\<close>.
\<close>

definition spec_conflict :: "hotel \<Rightarrow> ref \<Rightarrow> date \<Rightarrow> date \<Rightarrow> booking \<Rightarrow> bool" where
  "spec_conflict h r ci co b =
     (number (room_of h b) = number (heap h r)
      \<and> status b \<noteq> CANCELLED \<and> status b \<noteq> CHECKED_OUT
      \<and> ci < b_check_out b \<and> b_check_in b < co)"


text \<open>The invariant of the data model: every stored booking ends after it begins.\<close>

definition dates_ordered :: "hotel \<Rightarrow> bool" where
  "dates_ordered h = list_all (\<lambda>b. b_check_in b < b_check_out b) (map snd (bookings h))"


section \<open>Facts about the model\<close>


lemmas status_defs = BOOKED_def CHECKED_IN_def CHECKED_OUT_def CANCELLED_def
lemmas date_defs = jan_1_def jan_2_def jan_3_def jan_4_def jan_5_def date_ordinal_def
  days_before_year_def days_before_month_def is_leap_def

lemma room_is_available_loop_iff:
  "room_is_available_loop h bs r ci co = (\<not> (\<exists>b \<in> set bs. spec_conflict h r ci co b))"
  by (induction bs) (auto simp: spec_conflict_def)

lemma room_is_available_iff:
  "room_is_available h r ci co = (\<not> (\<exists>b \<in> set (map snd (bookings h)). spec_conflict h r ci co b))"
  unfolding room_is_available_def by (rule room_is_available_loop_iff)

lemma Hotel_init_hotel_0: "Hotel_init ''Luxury Hotel'' = Inr hotel_0"
  by (simp add: Hotel_init_def hotel_0_def)

lemma jan_values: "jan_1 = 738886" "jan_2 = 738887" "jan_3 = 738888" "jan_4 = 738889" "jan_5 = 738890"
  by (simp_all add: date_defs)

lemma hotel_ready_eq: "hotel_ready = \<lparr>hotel_name = ''Luxury Hotel'', rooms = [(101, 0)],
   guests = [(''g1'', \<lparr>guest_id = ''g1'', guest_name = ''John'', contact = ''john@example.com''\<rparr>)],
   bookings = [],
   heap = (\<lambda>_. blank_room)(0 := \<lparr>number = 101, room_type = ''single'', price_per_night = 100, is_occupied = False\<rparr>),
   next_ref = Suc 0\<rparr>"
  by (simp add: hotel_ready_def hotel_0_def add_room_def Room_init_def register_guest_def Guest_init_def)

lemma hotel_booked_eq: "hotel_booked = \<lparr>hotel_name = ''Luxury Hotel'', rooms = [(101, 0)],
   guests = [(''g1'', \<lparr>guest_id = ''g1'', guest_name = ''John'', contact = ''john@example.com''\<rparr>)],
   bookings = [(''b1'', \<lparr>booking_id = ''b1'',
      guest = \<lparr>guest_id = ''g1'', guest_name = ''John'', contact = ''john@example.com''\<rparr>,
      room = 0, b_check_in = 738886, b_check_out = 738888, status = ''booked''\<rparr>)],
   heap = (\<lambda>_. blank_room)(0 := \<lparr>number = 101, room_type = ''single'', price_per_night = 100, is_occupied = False\<rparr>),
   next_ref = Suc 0\<rparr>"
  by (simp add: hotel_booked_def hotel_ready_eq create_booking_def get_guest_def get_room_def
      room_is_available_def Booking_init_def is_valid_def status_defs jan_values)

lemma hotel_checked_in_eq: "hotel_checked_in = \<lparr>hotel_name = ''Luxury Hotel'', rooms = [(101, 0)],
   guests = [(''g1'', \<lparr>guest_id = ''g1'', guest_name = ''John'', contact = ''john@example.com''\<rparr>)],
   bookings = [(''b1'', \<lparr>booking_id = ''b1'',
      guest = \<lparr>guest_id = ''g1'', guest_name = ''John'', contact = ''john@example.com''\<rparr>,
      room = 0, b_check_in = 738886, b_check_out = 738888, status = ''checked_in''\<rparr>)],
   heap = (\<lambda>_. blank_room)(0 := \<lparr>number = 101, room_type = ''single'', price_per_night = 100, is_occupied = True\<rparr>),
   next_ref = Suc 0\<rparr>"
  by (simp add: hotel_checked_in_def hotel_booked_eq check_in_def get_booking_def room_of_def
      status_defs jan_values)

lemma hotel_checked_out_eq: "hotel_checked_out = \<lparr>hotel_name = ''Luxury Hotel'', rooms = [(101, 0)],
   guests = [(''g1'', \<lparr>guest_id = ''g1'', guest_name = ''John'', contact = ''john@example.com''\<rparr>)],
   bookings = [(''b1'', \<lparr>booking_id = ''b1'',
      guest = \<lparr>guest_id = ''g1'', guest_name = ''John'', contact = ''john@example.com''\<rparr>,
      room = 0, b_check_in = 738886, b_check_out = 738888, status = ''checked_out''\<rparr>)],
   heap = (\<lambda>_. blank_room)(0 := \<lparr>number = 101, room_type = ''single'', price_per_night = 100, is_occupied = False\<rparr>),
   next_ref = Suc 0\<rparr>"
  by (simp add: hotel_checked_out_def hotel_checked_in_eq check_out_def get_booking_def room_of_def
      status_defs jan_values Let_def)

lemma hotel_waiting_eq: "hotel_waiting = \<lparr>hotel_name = ''Luxury Hotel'', rooms = [(101, 0)],
   guests = [(''g1'', john)],
   bookings = [(''b1'', booking_1 CHECKED_IN), (''b2'', booking_2 BOOKED)],
   heap = (\<lambda>_. blank_room)(0 := room_101 True), next_ref = Suc 0\<rparr>"
  by (simp add: hotel_waiting_def hotel_checked_in_eq create_booking_def get_guest_def get_room_def
      room_is_available_def Booking_init_def is_valid_def status_defs jan_values room_of_def)


lemma hotel_cancelled_in_eq: "hotel_cancelled_in = \<lparr>hotel_name = ''Luxury Hotel'', rooms = [(101, 0)],
   guests = [(''g1'', john)],
   bookings = [(''b1'', booking_1 CANCELLED)],
   heap = (\<lambda>_. blank_room)(0 := room_101 True), next_ref = Suc 0\<rparr>"
  by (simp add: hotel_cancelled_in_def hotel_checked_in_eq cancel_booking_def get_booking_def
      status_defs jan_values)


subsection \<open>Association lists\<close>

lemma update_entries:
  "x \<in> set (AList.update k v al) \<Longrightarrow> snd x = v \<or> x \<in> set al"
  by (induction al) (auto split: if_splits)


subsection \<open>C1: when create_booking raises BookingConflict\<close>

text \<open>
  Claim C1. For a candidate booking of a registered guest on a room \<open>r\<close> of the hotel with
  interval \<open>[ci, co)\<close>, \<open>create_booking\<close> raises \<open>BookingConflictError\<close> if and only if some
  existing booking on a room of the same number, with status neither cancelled nor
  checked out, satisfies \<open>ci < b.check_out\<close> and \<open>b.check_in < co\<close>. An existing booking that
  the interval abuts (\<open>ci\<close> equal to its check-out, or \<open>co\<close> equal to its check-in) does not
  conflict, and when no other booking conflicts the creation of a booking of at least one
  night succeeds and stores the new booking with status booked.
\<close>

theorem create_booking_conflict_iff:
  assumes "get_guest gid h = Inr g" and "get_room n h = Inr r"
  shows "((fst (create_booking new_id gid n ci co h) = Inl BookingConflictError) =
          (\<exists>b \<in> set (map snd (bookings h)). spec_conflict h r ci co b))
       \<and> (\<forall>b0 \<in> set (map snd (bookings h)).
            (ci = b_check_out b0 \<or> co = b_check_in b0) \<longrightarrow>
              \<not> spec_conflict h r ci co b0 \<and>
              (ci < co \<and> new_id \<noteq> [] \<and>
               (\<forall>b \<in> set (map snd (bookings h)). b \<noteq> b0 \<longrightarrow> \<not> spec_conflict h r ci co b) \<longrightarrow>
               (let nb = \<lparr>booking_id = new_id, guest = g, room = r, b_check_in = ci,
                          b_check_out = co, status = BOOKED\<rparr>
                in create_booking new_id gid n ci co h =
                     (Inr nb, h\<lparr>bookings := AList.update new_id nb (bookings h)\<rparr>))))"
proof (intro conjI ballI impI)
  show "(fst (create_booking new_id gid n ci co h) = Inl BookingConflictError) =
          (\<exists>b \<in> set (map snd (bookings h)). spec_conflict h r ci co b)"
    using assms
    by (simp add: create_booking_def room_is_available_iff Booking_init_def split: sum.splits)
next
  fix b0 :: booking assume "ci = b_check_out b0 \<or> co = b_check_in b0"
  then show "\<not> spec_conflict h r ci co b0"
    by (auto simp: spec_conflict_def)
next
  fix b0 :: booking
  assume b0: "b0 \<in> set (map snd (bookings h))"
    and ab: "ci = b_check_out b0 \<or> co = b_check_in b0"
    and rest: "ci < co \<and> new_id \<noteq> [] \<and>
       (\<forall>b \<in> set (map snd (bookings h)). b \<noteq> b0 \<longrightarrow> \<not> spec_conflict h r ci co b)"
  from ab have "\<not> spec_conflict h r ci co b0" by (auto simp: spec_conflict_def)
  with rest have "room_is_available h r ci co"
    by (auto simp: room_is_available_iff)
  with rest assms
  show "let nb = \<lparr>booking_id = new_id, guest = g, room = r, b_check_in = ci,
                          b_check_out = co, status = BOOKED\<rparr>
                in create_booking new_id gid n ci co h =
                     (Inr nb, h\<lparr>bookings := AList.update new_id nb (bookings h)\<rparr>)"
    by (simp add: create_booking_def Booking_init_def is_valid_def Let_def)
qed

theorem create_booking_conflict_iff_witness:
  "get_guest ''g1'' hotel_booked =
     Inr \<lparr>guest_id = ''g1'', guest_name = ''John'', contact = ''john@example.com''\<rparr>
   \<and> get_room 101 hotel_booked = Inr 0
   \<and> fst (create_booking ''b2'' ''g1'' 101 jan_2 jan_4 hotel_booked) = Inl BookingConflictError
   \<and> fst (create_booking ''b2'' ''g1'' 101 jan_3 jan_5 hotel_booked) =
       Inr \<lparr>booking_id = ''b2'',
            guest = \<lparr>guest_id = ''g1'', guest_name = ''John'', contact = ''john@example.com''\<rparr>,
            room = 0, b_check_in = jan_3, b_check_out = jan_5, status = BOOKED\<rparr>"
proof -
  have g: "get_guest ''g1'' hotel_booked =
     Inr \<lparr>guest_id = ''g1'', guest_name = ''John'', contact = ''john@example.com''\<rparr>"
    by (simp add: hotel_booked_eq get_guest_def)
  have r: "get_room 101 hotel_booked = Inr 0"
    by (simp add: hotel_booked_eq get_room_def)
  have c: "\<exists>b \<in> set (map snd (bookings hotel_booked)). spec_conflict hotel_booked 0 jan_2 jan_4 b"
    by (simp add: hotel_booked_eq spec_conflict_def room_of_def status_defs jan_values)
  have 1: "fst (create_booking ''b2'' ''g1'' 101 jan_2 jan_4 hotel_booked) = Inl BookingConflictError"
    using create_booking_conflict_iff [OF g r, of "''b2''" jan_2 jan_4] c by blast
  have 2: "fst (create_booking ''b2'' ''g1'' 101 jan_3 jan_5 hotel_booked) =
       Inr \<lparr>booking_id = ''b2'',
            guest = \<lparr>guest_id = ''g1'', guest_name = ''John'', contact = ''john@example.com''\<rparr>,
            room = 0, b_check_in = jan_3, b_check_out = jan_5, status = BOOKED\<rparr>"
    using create_booking_conflict_iff [OF g r, of "''b2''" jan_3 jan_5]
    by (simp add: hotel_booked_eq jan_values Let_def)
  from g r 1 2 show ?thesis by blast
qed

subsection \<open>C2: cancelling a checked-in booking\<close>

text \<open>
  Claim C2 says that \<open>cancel_booking\<close> on a checked-in booking fails and leaves its status
  unchanged. It does not: in Scenario 1, after the check-in, the call returns and the
  booking is cancelled.
\<close>

theorem cancel_checked_in_counterexample:
  "map_of (bookings hotel_checked_in) ''b1'' = Some (booking_1 CHECKED_IN)
   \<and> fst (cancel_booking ''b1'' hotel_checked_in) = Inr ()
   \<and> map_of (bookings (snd (cancel_booking ''b1'' hotel_checked_in))) ''b1''
       = Some (booking_1 CANCELLED)
   \<and> CANCELLED \<noteq> CHECKED_IN"
  by (simp add: cancel_booking_def get_booking_def hotel_checked_in_eq status_defs jan_values)

text \<open>
  Claim C2, amended. For every booking of the hotel whose status is checked in,
  \<open>cancel_booking\<close> succeeds and sets the booking's status to cancelled, changing nothing
  else. Of the bookings of the hotel, \<open>cancel_booking\<close> refuses exactly those whose status is
  checked out.
\<close>

theorem cancel_checked_in_succeeds:
  assumes "map_of (bookings h) bid = Some b"
  shows "(status b = CHECKED_IN \<longrightarrow>
            cancel_booking bid h =
              (Inr (), h\<lparr>bookings := AList.update bid (b\<lparr>status := CANCELLED\<rparr>) (bookings h)\<rparr>)
            \<and> map_of (bookings (snd (cancel_booking bid h))) bid = Some (b\<lparr>status := CANCELLED\<rparr>))
         \<and> (isl (fst (cancel_booking bid h)) = (status b = CHECKED_OUT))"
  using assms
  by (simp add: cancel_booking_def get_booking_def status_defs update_conv')

theorem cancel_checked_in_succeeds_witness:
  "map_of (bookings hotel_checked_in) ''b1'' = Some (booking_1 CHECKED_IN)
   \<and> cancel_booking ''b1'' hotel_checked_in = (Inr (), hotel_cancelled_in)"
proof -
  have m: "map_of (bookings hotel_checked_in) ''b1'' = Some (booking_1 CHECKED_IN)"
    by (simp add: hotel_checked_in_eq status_defs jan_values)
  have s: "status (booking_1 CHECKED_IN) = CHECKED_IN" by simp
  show ?thesis
    using m s cancel_checked_in_succeeds [OF m]
    by (simp add: hotel_checked_in_eq hotel_cancelled_in_eq)
qed

subsection \<open>C3: a check-out on the booking's check-out date\<close>



subsection \<open>C4: the outcomes of check_in\<close>

text \<open>
  Claim C4. For a booking id absent from the collection \<open>check_in\<close> raises
  \<open>EntityNotFoundError\<close>. For a booking id that is present it raises \<open>InvalidOperationError\<close>
  when the booking's status is not booked, raises \<open>InvalidOperationError\<close> when the current
  date differs from the booking's check-in date, raises \<open>BookingConflictError\<close> when (those
  two checks passed and) the booked room's occupancy flag is already true, and otherwise sets
  the booking's status to checked in and the room's flag to true. A call that raises leaves
  the hotel as it was.
\<close>

theorem check_in_cases:
  "(map_of (bookings h) bid = None \<longrightarrow> check_in bid d h = (Inl EntityNotFoundError, h))
   \<and> (\<forall>b. map_of (bookings h) bid = Some b \<longrightarrow>
        (status b \<noteq> BOOKED \<longrightarrow> check_in bid d h = (Inl InvalidOperationError, h))
      \<and> (d \<noteq> b_check_in b \<longrightarrow> check_in bid d h = (Inl InvalidOperationError, h))
      \<and> (status b = BOOKED \<and> d = b_check_in b \<and> is_occupied (room_of h b) \<longrightarrow>
            check_in bid d h = (Inl BookingConflictError, h))
      \<and> (status b = BOOKED \<and> d = b_check_in b \<and> \<not> is_occupied (room_of h b) \<longrightarrow>
            (let h' = h\<lparr>bookings := AList.update bid (b\<lparr>status := CHECKED_IN\<rparr>) (bookings h),
                        heap := (heap h)(room b := (heap h (room b))\<lparr>is_occupied := True\<rparr>)\<rparr>
             in check_in bid d h = (Inr (), h')
                \<and> map_of (bookings h') bid = Some (b\<lparr>status := CHECKED_IN\<rparr>)
                \<and> is_occupied (room_of h' b))))"
  by (simp add: check_in_def Let_def room_of_def get_booking_def update_conv')

theorem check_in_cases_witness:
  "check_in ''b9'' jan_1 hotel_booked = (Inl EntityNotFoundError, hotel_booked)
   \<and> check_in ''b1'' jan_1 hotel_checked_in = (Inl InvalidOperationError, hotel_checked_in)
   \<and> check_in ''b1'' jan_2 hotel_booked = (Inl InvalidOperationError, hotel_booked)
   \<and> check_in ''b2'' jan_3 hotel_waiting = (Inl BookingConflictError, hotel_waiting)
   \<and> check_in ''b1'' jan_1 hotel_booked = (Inr (), hotel_checked_in)"
proof -
  have 1: "check_in ''b9'' jan_1 hotel_booked = (Inl EntityNotFoundError, hotel_booked)"
    using check_in_cases [of hotel_booked "''b9''" jan_1]
    by (simp add: hotel_booked_eq)
  have 2: "check_in ''b1'' jan_1 hotel_checked_in = (Inl InvalidOperationError, hotel_checked_in)"
    using check_in_cases [of hotel_checked_in "''b1''" jan_1]
    by (simp add: hotel_checked_in_eq status_defs)
  have 3: "check_in ''b1'' jan_2 hotel_booked = (Inl InvalidOperationError, hotel_booked)"
    using check_in_cases [of hotel_booked "''b1''" jan_2]
    by (simp add: hotel_booked_eq jan_values)
  have 4: "check_in ''b2'' jan_3 hotel_waiting = (Inl BookingConflictError, hotel_waiting)"
    using check_in_cases [of hotel_waiting "''b2''" jan_3]
    by (simp add: hotel_waiting_eq room_of_def status_defs)
  have 5: "check_in ''b1'' jan_1 hotel_booked = (Inr (), hotel_checked_in)"
    using check_in_cases [of hotel_booked "''b1''" jan_1]
    by (simp add: hotel_booked_eq hotel_checked_in_eq room_of_def status_defs jan_values Let_def)
  from 1 2 3 4 5 show ?thesis by blast
qed

subsection \<open>C5: a call that raises changes nothing\<close>

text \<open>
  Claim C5. For each of \<open>add_room\<close>, \<open>remove_room\<close>, \<open>create_booking\<close>, \<open>cancel_booking\<close>,
  \<open>check_in\<close> and \<open>check_out\<close>, in every hotel: if the call raises, the hotel (rooms, guests,
  bookings, every status and occupancy flag) is exactly the hotel before the call. In
  particular \<open>check_in\<close> with a current date other than the booking's check-in date raises
  \<open>InvalidOperationError\<close> and the booking is as before, so a booked booking remains booked.
\<close>

theorem failed_operation_keeps_state:
  "(isl (fst (add_room n t p h)) \<longrightarrow> snd (add_room n t p h) = h)
   \<and> (isl (fst (remove_room n h)) \<longrightarrow> snd (remove_room n h) = h)
   \<and> (isl (fst (create_booking new_id gid n ci co h)) \<longrightarrow>
        snd (create_booking new_id gid n ci co h) = h)
   \<and> (isl (fst (cancel_booking bid h)) \<longrightarrow> snd (cancel_booking bid h) = h)
   \<and> (isl (fst (check_in bid d h)) \<longrightarrow> snd (check_in bid d h) = h)
   \<and> (isl (fst (check_out bid d h)) \<longrightarrow> snd (check_out bid d h) = h)
   \<and> (\<forall>b. map_of (bookings h) bid = Some b \<and> d \<noteq> b_check_in b \<longrightarrow>
        check_in bid d h = (Inl InvalidOperationError, h)
        \<and> map_of (bookings (snd (check_in bid d h))) bid = Some b)"
proof (intro conjI)
  show "isl (fst (add_room n t p h)) \<longrightarrow> snd (add_room n t p h) = h"
    by (simp add: add_room_def split: sum.splits)
  show "isl (fst (remove_room n h)) \<longrightarrow> snd (remove_room n h) = h"
    by (simp add: remove_room_def split: option.splits)
  show "isl (fst (create_booking new_id gid n ci co h)) \<longrightarrow>
        snd (create_booking new_id gid n ci co h) = h"
    by (simp add: create_booking_def split: sum.splits)
  show "isl (fst (cancel_booking bid h)) \<longrightarrow> snd (cancel_booking bid h) = h"
    by (simp add: cancel_booking_def split: sum.splits)
  show "isl (fst (check_in bid d h)) \<longrightarrow> snd (check_in bid d h) = h"
    by (simp add: check_in_def split: sum.splits)
  show "isl (fst (check_out bid d h)) \<longrightarrow> snd (check_out bid d h) = h"
    by (simp add: check_out_def Let_def split: sum.splits)
  show "\<forall>b. map_of (bookings h) bid = Some b \<and> d \<noteq> b_check_in b \<longrightarrow>
        check_in bid d h = (Inl InvalidOperationError, h)
        \<and> map_of (bookings (snd (check_in bid d h))) bid = Some b"
    by (simp add: check_in_def get_booking_def)
qed

theorem failed_operation_keeps_state_witness:
  "add_room 101 ''double'' 150 hotel_ready = (Inl InvalidOperationError, hotel_ready)
   \<and> remove_room 101 hotel_checked_in = (Inl InvalidOperationError, hotel_checked_in)
   \<and> create_booking ''b2'' ''g1'' 101 jan_2 jan_4 hotel_booked = (Inl BookingConflictError, hotel_booked)
   \<and> cancel_booking ''b1'' hotel_checked_out = (Inl InvalidOperationError, hotel_checked_out)
   \<and> check_in ''b1'' jan_2 hotel_booked = (Inl InvalidOperationError, hotel_booked)
   \<and> check_out ''b1'' jan_2 hotel_checked_in = (Inl InvalidOperationError, hotel_checked_in)
   \<and> map_of (bookings (snd (check_in ''b1'' jan_2 hotel_booked))) ''b1'' = Some (booking_1 BOOKED)"
proof -
  have a: "fst (add_room 101 ''double'' 150 hotel_ready) = Inl InvalidOperationError"
    by (simp add: add_room_def hotel_ready_eq)
  have b: "fst (remove_room 101 hotel_checked_in) = Inl InvalidOperationError"
    by (simp add: remove_room_def hotel_checked_in_eq)
  have c: "fst (create_booking ''b2'' ''g1'' 101 jan_2 jan_4 hotel_booked) = Inl BookingConflictError"
    by (simp add: create_booking_def get_guest_def get_room_def room_is_available_def room_of_def
        hotel_booked_eq status_defs jan_values)
  have d: "fst (cancel_booking ''b1'' hotel_checked_out) = Inl InvalidOperationError"
    by (simp add: cancel_booking_def get_booking_def hotel_checked_out_eq status_defs)
  have e: "fst (check_in ''b1'' jan_2 hotel_booked) = Inl InvalidOperationError"
    by (simp add: check_in_def get_booking_def hotel_booked_eq status_defs jan_values)
  have f: "fst (check_out ''b1'' jan_2 hotel_checked_in) = Inl InvalidOperationError"
    by (simp add: check_out_def get_booking_def hotel_checked_in_eq status_defs jan_values)
  have g: "map_of (bookings hotel_booked) ''b1'' = Some (booking_1 BOOKED)
           \<and> jan_2 \<noteq> b_check_in (booking_1 BOOKED)"
    by (simp add: hotel_booked_eq status_defs jan_values)
  note T = failed_operation_keeps_state
  have a': "snd (add_room 101 ''double'' 150 hotel_ready) = hotel_ready"
    using T [where n = 101 and t = "''double''" and p = 150 and h = hotel_ready] a by simp
  have b': "snd (remove_room 101 hotel_checked_in) = hotel_checked_in"
    using T [where n = 101 and h = hotel_checked_in] b by simp
  have c': "snd (create_booking ''b2'' ''g1'' 101 jan_2 jan_4 hotel_booked) = hotel_booked"
    using T [where n = 101 and h = hotel_booked and new_id = "''b2''" and gid = "''g1''"
          and ci = jan_2 and co = jan_4] c by simp
  have d': "snd (cancel_booking ''b1'' hotel_checked_out) = hotel_checked_out"
    using T [where h = hotel_checked_out and bid = "''b1''"] d by simp
  have e': "snd (check_in ''b1'' jan_2 hotel_booked) = hotel_booked"
    using T [where h = hotel_booked and bid = "''b1''" and d = jan_2] e by simp
  have f': "snd (check_out ''b1'' jan_2 hotel_checked_in) = hotel_checked_in"
    using T [where h = hotel_checked_in and bid = "''b1''" and d = jan_2] f by simp
  have g': "map_of (bookings (snd (check_in ''b1'' jan_2 hotel_booked))) ''b1'' = Some (booking_1 BOOKED)"
    using T [where h = hotel_booked and bid = "''b1''" and d = jan_2] g by blast
  from a a' b b' c c' d d' e e' f f' g' show ?thesis
    by (simp add: prod_eq_iff)
qed

subsection \<open>C6: cancelling a cancelled booking\<close>

lemma run_replicate_fixed: "exec x h = h \<Longrightarrow> run (replicate k x) h = h"
  by (induction k) simp_all

text \<open>
  Claim C6. \<open>cancel_booking\<close> on a booking whose status is already cancelled is a no-op: it
  raises nothing and leaves the status and the rest of the hotel unchanged, and repeated
  calls, any number of them, behave the same.
\<close>

theorem cancel_cancelled_noop:
  assumes "map_of (bookings h) bid = Some b" and "status b = CANCELLED"
  shows "cancel_booking bid h = (Inr (), h)
         \<and> cancel_booking bid (snd (cancel_booking bid h)) = (Inr (), h)
         \<and> (\<forall>k. run (replicate k (CancelBooking bid)) h = h)"
proof -
  have 1: "cancel_booking bid h = (Inr (), h)"
    using assms by (simp add: cancel_booking_def get_booking_def)
  then have "exec (CancelBooking bid) h = h" by simp
  then have "\<forall>k. run (replicate k (CancelBooking bid)) h = h"
    by (simp add: run_replicate_fixed)
  with 1 show ?thesis by simp
qed

theorem cancel_cancelled_noop_witness:
  "map_of (bookings hotel_cancelled_in) ''b1'' = Some (booking_1 CANCELLED)
   \<and> cancel_booking ''b1'' hotel_cancelled_in = (Inr (), hotel_cancelled_in)
   \<and> run [CancelBooking ''b1'', CancelBooking ''b1'', CancelBooking ''b1''] hotel_cancelled_in
       = hotel_cancelled_in"
proof -
  have m: "map_of (bookings hotel_cancelled_in) ''b1'' = Some (booking_1 CANCELLED)"
    by (simp add: hotel_cancelled_in_eq)
  have s: "status (booking_1 CANCELLED) = CANCELLED" by simp
  have r: "replicate 3 (CancelBooking ''b1'') =
           [CancelBooking ''b1'', CancelBooking ''b1'', CancelBooking ''b1'']"
    by (simp add: numeral_3_eq_3)
  from cancel_cancelled_noop [OF m s] have
    "cancel_booking ''b1'' hotel_cancelled_in = (Inr (), hotel_cancelled_in)"
    "run (replicate 3 (CancelBooking ''b1'')) hotel_cancelled_in = hotel_cancelled_in"
    by blast+
  with m r show ?thesis by simp
qed

subsection \<open>C7: the total revenue\<close>




subsection \<open>C8: adding a room\<close>

text \<open>
  Claim C8. For a positive number not yet present, a positive price and a non-empty type,
  \<open>add_room\<close> succeeds and \<open>get_room\<close> afterwards returns the new room under its number. For
  a number already present \<open>add_room\<close> raises \<open>InvalidOperationError\<close> whatever type and price
  are supplied, and the room collection is unchanged.
\<close>

theorem add_room_then_get_room:
  "(0 < n \<and> map_of (rooms h) n = None \<and> 0 < p \<and> t \<noteq> [] \<longrightarrow>
      (let r = next_ref h;
           h' = h\<lparr>rooms := AList.update n r (rooms h),
                  heap := (heap h)
                    (r := \<lparr>number = n, room_type = t, price_per_night = p, is_occupied = False\<rparr>),
                  next_ref := Suc r\<rparr>
       in add_room n t p h = (Inr r, h')
          \<and> get_room n h' = Inr r
          \<and> heap h' r = \<lparr>number = n, room_type = t, price_per_night = p, is_occupied = False\<rparr>))
   \<and> (map_of (rooms h) n \<noteq> None \<longrightarrow>
        add_room n t p h = (Inl InvalidOperationError, h)
        \<and> rooms (snd (add_room n t p h)) = rooms h)"
  by (simp add: add_room_def Room_init_def get_room_def Let_def update_conv')

theorem add_room_then_get_room_witness:
  "add_room 101 ''single'' 100 hotel_0 =
     (Inr 0, hotel_0\<lparr>rooms := [(101, 0)], heap := (heap hotel_0)(0 := room_101 False),
                     next_ref := 1\<rparr>)
   \<and> get_room 101 (snd (add_room 101 ''single'' 100 hotel_0)) = Inr 0
   \<and> heap (snd (add_room 101 ''single'' 100 hotel_0)) 0 = room_101 False
   \<and> add_room 101 ''suite'' 250 hotel_ready = (Inl InvalidOperationError, hotel_ready)"
proof -
  have a: "(0::int) < 101 \<and> map_of (rooms hotel_0) 101 = None \<and> (0::real) < 100 \<and> ''single'' \<noteq> []"
    by (simp add: hotel_0_def)
  have b: "map_of (rooms hotel_ready) 101 \<noteq> None"
    by (simp add: hotel_ready_eq)
  have 1: "add_room 101 ''single'' 100 hotel_0 =
     (Inr 0, hotel_0\<lparr>rooms := [(101, 0)], heap := (heap hotel_0)(0 := room_101 False),
                     next_ref := 1\<rparr>)
     \<and> get_room 101 (snd (add_room 101 ''single'' 100 hotel_0)) = Inr 0
     \<and> heap (snd (add_room 101 ''single'' 100 hotel_0)) 0 = room_101 False"
    using add_room_then_get_room [of 101 hotel_0 100 "''single''"] a
    by (simp add: Let_def hotel_0_def)
  have 2: "add_room 101 ''suite'' 250 hotel_ready = (Inl InvalidOperationError, hotel_ready)"
    using add_room_then_get_room [of 101 hotel_ready 250 "''suite''"] b by blast
  from 1 2 show ?thesis by blast
qed

subsection \<open>C9: what cancel_booking leaves alone\<close>








subsection \<open>C10: create_booking with check-out not after check-in\<close>

lemma exec_dates_ordered: "dates_ordered h \<Longrightarrow> dates_ordered (exec x h)"
proof (cases x)
  case (CreateBooking new_id gid n ci co)
  assume "dates_ordered h"
  with CreateBooking show ?thesis
    by (auto simp: dates_ordered_def list_all_iff create_booking_def Booking_init_def
        split: sum.splits if_splits dest!: update_entries)
next
  case (CancelBooking bid)
  assume "dates_ordered h"
  with CancelBooking show ?thesis
    by (auto simp: dates_ordered_def list_all_iff cancel_booking_def get_booking_def
        split: option.splits dest!: update_entries map_of_SomeD)
next
  case (CheckIn bid d)
  assume "dates_ordered h"
  with CheckIn show ?thesis
    by (auto simp: dates_ordered_def list_all_iff check_in_def get_booking_def
        split: option.splits dest!: update_entries map_of_SomeD)
next
  case (CheckOut bid d)
  assume "dates_ordered h"
  with CheckOut show ?thesis
    by (auto simp: dates_ordered_def list_all_iff check_out_def get_booking_def Let_def
        split: option.splits dest!: update_entries map_of_SomeD)
qed (auto simp: dates_ordered_def add_room_def remove_room_def register_guest_def
       split: sum.splits option.splits)

lemma run_dates_ordered: "dates_ordered h \<Longrightarrow> dates_ordered (run xs h)"
  by (induction xs arbitrary: h) (simp_all add: exec_dates_ordered)

text \<open>
  Claim C10 says that \<open>create_booking\<close> with \<open>check_out <= check_in\<close>, for an existing guest and
  room, raises \<open>InvalidOperationError\<close>. The availability check runs before the \<open>Booking\<close>
  constructor, and an interval with \<open>check_out <= check_in\<close> can pass the overlap test: with
  the booking from 2024-01-01 to 2024-01-03 in place, a request from 2024-01-02 to
  2024-01-02 raises \<open>BookingConflictError\<close>.
\<close>

theorem inverted_dates_counterexample:
  "get_guest ''g1'' hotel_booked = Inr john
   \<and> get_room 101 hotel_booked = Inr 0
   \<and> jan_2 \<le> jan_2
   \<and> fst (create_booking ''b2'' ''g1'' 101 jan_2 jan_2 hotel_booked) = Inl BookingConflictError"
  by (simp add: create_booking_def get_guest_def get_room_def room_is_available_def room_of_def
      hotel_booked_eq status_defs jan_values)

text \<open>
  Claim C10, amended. For every existing guest id and room number, \<open>create_booking\<close> called
  with \<open>check_out <= check_in\<close> raises and inserts no booking: \<open>BookingConflictError\<close> when an
  active booking on the room passes the overlap test with the requested dates, and
  \<open>InvalidOperationError\<close> (from the \<open>Booking\<close> constructor) otherwise. So every booking ever
  stored satisfies \<open>check_out > check_in\<close>: a hotel without bookings satisfies it and every
  session of the engine preserves it.
\<close>

theorem create_booking_inverted_dates:
  "(get_guest gid h = Inr g \<and> get_room n h = Inr r \<and> co \<le> ci \<longrightarrow>
      create_booking new_id gid n ci co h =
        (Inl (if \<exists>b \<in> set (map snd (bookings h)). spec_conflict h r ci co b
              then BookingConflictError else InvalidOperationError), h))
   \<and> (bookings h = [] \<longrightarrow> dates_ordered h)
   \<and> (dates_ordered h \<longrightarrow> dates_ordered (run xs h))"
  by (simp add: create_booking_def room_is_available_iff Booking_init_def dates_ordered_def
      run_dates_ordered [unfolded dates_ordered_def])

theorem create_booking_inverted_dates_witness:
  "get_guest ''g1'' hotel_booked = Inr john
   \<and> get_room 101 hotel_booked = Inr 0
   \<and> create_booking ''b2'' ''g1'' 101 jan_2 jan_2 hotel_booked
       = (Inl BookingConflictError, hotel_booked)
   \<and> create_booking ''b2'' ''g1'' 101 jan_5 jan_4 hotel_booked
       = (Inl InvalidOperationError, hotel_booked)
   \<and> bookings hotel_0 = []
   \<and> dates_ordered (run [AddRoom 101 ''single'' 100, RegisterGuest ''g1'' ''John'' ''john@example.com'',
        CreateBooking ''b1'' ''g1'' 101 jan_1 jan_3, CreateBooking ''b2'' ''g1'' 101 jan_5 jan_4]
        hotel_0)"
proof -
  have g: "get_guest ''g1'' hotel_booked = Inr john"
    by (simp add: get_guest_def hotel_booked_eq)
  have r: "get_room 101 hotel_booked = Inr 0"
    by (simp add: get_room_def hotel_booked_eq)
  have c: "\<exists>b \<in> set (map snd (bookings hotel_booked)). spec_conflict hotel_booked 0 jan_2 jan_2 b"
    by (simp add: hotel_booked_eq spec_conflict_def room_of_def status_defs jan_values)
  have n: "\<not> (\<exists>b \<in> set (map snd (bookings hotel_booked)). spec_conflict hotel_booked 0 jan_5 jan_4 b)"
    by (simp add: hotel_booked_eq spec_conflict_def room_of_def status_defs jan_values)
  have e: "bookings hotel_0 = []"
    by (simp add: hotel_0_def)
  have 1: "create_booking ''b2'' ''g1'' 101 jan_2 jan_2 hotel_booked
       = (Inl BookingConflictError, hotel_booked)"
    using create_booking_inverted_dates [where h = hotel_booked and gid = "''g1''" and g = john
        and n = 101 and r = 0 and ci = jan_2 and co = jan_2 and new_id = "''b2''"] g r c
    by simp
  have 2: "create_booking ''b2'' ''g1'' 101 jan_5 jan_4 hotel_booked
       = (Inl InvalidOperationError, hotel_booked)"
    using create_booking_inverted_dates [where h = hotel_booked and gid = "''g1''" and g = john
        and n = 101 and r = 0 and ci = jan_5 and co = jan_4 and new_id = "''b2''"] g r n
    by (simp add: jan_values)
  have 3: "dates_ordered (run [AddRoom 101 ''single'' 100,
        RegisterGuest ''g1'' ''John'' ''john@example.com'',
        CreateBooking ''b1'' ''g1'' 101 jan_1 jan_3, CreateBooking ''b2'' ''g1'' 101 jan_5 jan_4]
        hotel_0)"
    using create_booking_inverted_dates [where h = hotel_0] e by blast
  from g r 1 2 e 3 show ?thesis by blast
qed

end
